theory Spec2Isabelle
  imports Main
begin

section \<open>The folio service worker (sw.js)\<close>

text \<open>
  The worker has three listeners: \<open>install\<close> (precache a fixed resource list),
  \<open>activate\<close> (delete every cache generation but the two live ones) and \<open>fetch\<close>
  (route a request to one of three caching strategies, or decline it). Each listener is
  modelled as a function from the state of the host's cache storage, and the outcomes of
  the network and storage calls it makes, to the new storage, the value handed back to the
  host and the list of storage and network calls it made, in program order.
  A listener runs to completion, write-behind included, before the next one starts.
\<close>

subsection \<open>Constants (sw.js lines 1-15)\<close>

definition CACHE_NAME :: string where
  "CACHE_NAME = ''folio-v1.0''"


definition RUNTIME_CACHE_ORIGINS :: "string list" where
  "RUNTIME_CACHE_ORIGINS =
     [''https://fonts.googleapis.com'',
      ''https://fonts.gstatic.com'',
      ''https://www.gstatic.com/firebasejs'']"

definition IMAGE_CACHE :: string where
  "IMAGE_CACHE = ''folio-images-v1''"

definition IMAGE_CACHE_LIMIT :: nat where
  "IMAGE_CACHE_LIMIT = 100"

subsection \<open>Requests, responses and strings\<close>

text \<open>
  A request is its method and its serialised absolute URL; two requests with the same
  method and URL are the same cache key. A response is its status and body;
  \<open>response.ok\<close> is a status in the range 200 to 299.
\<close>

record request =
  "method" :: string
  url :: string

record response =
  status :: nat
  body :: string

definition ok :: "response \<Rightarrow> bool" where
  "ok r = (200 \<le> status r \<and> status r \<le> 299)"

text \<open>\<open>String.prototype.startsWith\<close> and \<open>String.prototype.includes\<close> (as \<open>includes_str\<close>).\<close>

fun startsWith :: "string \<Rightarrow> string \<Rightarrow> bool" where
  "startsWith s [] = True"
| "startsWith [] (c # p) = False"
| "startsWith (a # s) (c # p) = (a = c \<and> startsWith s p)"

fun includes_str :: "string \<Rightarrow> string \<Rightarrow> bool" where
  "includes_str [] p = (p = [])"
| "includes_str (a # s) p = (startsWith (a # s) p \<or> includes_str s p)"

text \<open>
  \<open>new URL(event.request.url)\<close>: the URL of a request is already serialised
  (scheme and host in lower case, a default port left out), so its parts are read off
  the string \<open>scheme://[userinfo@]host[:port]/path?query#fragment\<close>. The hostname is
  the host without the port, the origin is scheme, host and port. This covers http and
  https URLs; hosts written with colons (IPv6 literals) are outside this model.
\<close>

definition url_scheme :: "string \<Rightarrow> string" where
  "url_scheme u = takeWhile (\<lambda>c. c \<noteq> CHR '':'') u"

definition url_authority :: "string \<Rightarrow> string" where
  "url_authority u =
     takeWhile (\<lambda>c. c \<noteq> CHR ''/'' \<and> c \<noteq> CHR ''?'' \<and> c \<noteq> CHR ''#'')
       (drop (length (url_scheme u) + 3) u)"

definition url_host :: "string \<Rightarrow> string" where
  "url_host u = rev (takeWhile (\<lambda>c. c \<noteq> CHR ''@'') (rev (url_authority u)))"

definition url_hostname :: "string \<Rightarrow> string" where
  "url_hostname u = takeWhile (\<lambda>c. c \<noteq> CHR '':'') (url_host u)"

definition url_origin :: "string \<Rightarrow> string" where
  "url_origin u = url_scheme u @ ''://'' @ url_host u"

subsection \<open>The host's cache storage\<close>

text \<open>
  A cache is a list of request/response pairs in insertion order, and the cache
  storage is a list of named caches in creation order. \<open>Cache.put\<close> removes the
  entries stored for the request and appends the new pair; \<open>Cache.keys\<close> lists the
  requests in insertion order; \<open>CacheStorage.match\<close> searches the caches in creation
  order and answers from the first one that holds the request;
  \<open>CacheStorage.open\<close> creates the named cache when it does not exist.
  Storage writes are taken to succeed. The storage belongs to the origin: every page
  and every worker version of the origin reads and writes it, so a listener may find
  generations in it that this version of the worker did not create.
\<close>

type_synonym cache = "(request \<times> response) list"

type_synonym cache_storage = "(string \<times> cache) list"

definition cache_match :: "request \<Rightarrow> cache \<Rightarrow> response option" where
  "cache_match req c = map_of c req"

definition cache_put :: "request \<Rightarrow> response \<Rightarrow> cache \<Rightarrow> cache" where
  "cache_put req resp c = filter (\<lambda>e. fst e \<noteq> req) c @ [(req, resp)]"

definition cache_keys :: "cache \<Rightarrow> request list" where
  "cache_keys c = map fst c"

definition cache_delete :: "request \<Rightarrow> cache \<Rightarrow> cache" where
  "cache_delete req c = filter (\<lambda>e. fst e \<noteq> req) c"

definition caches_keys :: "cache_storage \<Rightarrow> string list" where
  "caches_keys s = map fst s"

definition caches_open :: "string \<Rightarrow> cache_storage \<Rightarrow> cache_storage" where
  "caches_open name s = (if name \<in> set (caches_keys s) then s else s @ [(name, [])])"

definition caches_delete :: "string \<Rightarrow> cache_storage \<Rightarrow> cache_storage" where
  "caches_delete name s = filter (\<lambda>g. fst g \<noteq> name) s"

fun caches_match :: "request \<Rightarrow> cache_storage \<Rightarrow> response option" where
  "caches_match req [] = None"
| "caches_match req (g # s) =
     (case cache_match req (snd g) of
        Some cached \<Rightarrow> Some cached
      | None \<Rightarrow> caches_match req s)"

text \<open>The entries of a named generation (none when it does not exist).\<close>

definition generation :: "string \<Rightarrow> cache_storage \<Rightarrow> cache" where
  "generation name s = (case map_of s name of None \<Rightarrow> [] | Some c \<Rightarrow> c)"

text \<open>Run a cache operation on the named generation.\<close>

fun on_cache :: "string \<Rightarrow> (cache \<Rightarrow> cache) \<Rightarrow> cache_storage \<Rightarrow> cache_storage" where
  "on_cache name f [] = []"
| "on_cache name f (g # s) =
     (if fst g = name then (fst g, f (snd g)) # s else g # on_cache name f s)"

subsection \<open>What a listener did\<close>

datatype effect =
    CachesMatch request
  | NetFetch request
  | CachesOpen string
  | CachePut string request response
  | CacheKeys string
  | CacheDelete string request

text \<open>
  What the host gets back from the fetch listener: the listener returned without
  \<open>respondWith\<close> (the host sends the request to the network itself, unmodified),
  or the promise given to \<open>respondWith\<close> resolved with a response, or it rejected or
  resolved with no response (the caller sees a network error).
\<close>

datatype outcome = PassThrough | Respond response | NetworkError

datatype route = Bypass | ImageCache | AllowlistedThirdParty | SameOriginNetworkFirst

record handled =
  store :: cache_storage
  outcome :: outcome
  effects :: "effect list"
  route :: route

subsection \<open>The fetch listener (sw.js lines 33-89)\<close>

text \<open>
  \<open>net\<close> is what \<open>fetch(event.request)\<close> gives if the listener calls it:
  \<open>None\<close> when the promise rejects, the response otherwise.
\<close>

definition declined :: "cache_storage \<Rightarrow> handled" where
  "declined s = \<lparr>store = s, outcome = PassThrough, effects = [], route = Bypass\<rparr>"

text \<open>
  Lines 46-50: store the clone in the image cache, then the eviction check. The calls
  take effect in program order: the \<open>put\<close> of line 47, which the source does not
  await, is complete when line 48 enumerates the keys.
\<close>

definition image_put :: "request \<Rightarrow> response \<Rightarrow> cache_storage \<Rightarrow> cache_storage \<times> effect list" where
  "image_put req clone s =
     (let s1 = caches_open IMAGE_CACHE s;
          s2 = on_cache IMAGE_CACHE (cache_put req clone) s1;
          keys = cache_keys (generation IMAGE_CACHE s2)
      in if length keys > IMAGE_CACHE_LIMIT
         then (on_cache IMAGE_CACHE (cache_delete (hd keys)) s2,
               [CachesOpen IMAGE_CACHE, CachePut IMAGE_CACHE req clone,
                CacheKeys IMAGE_CACHE, CacheDelete IMAGE_CACHE (hd keys)])
         else (s2,
               [CachesOpen IMAGE_CACHE, CachePut IMAGE_CACHE req clone,
                CacheKeys IMAGE_CACHE]))"

text \<open>Lines 66 and 81: store the clone in the current-version cache.\<close>

definition version_put :: "request \<Rightarrow> response \<Rightarrow> cache_storage \<Rightarrow> cache_storage \<times> effect list" where
  "version_put req clone s =
     (on_cache CACHE_NAME (cache_put req clone) (caches_open CACHE_NAME s),
      [CachesOpen CACHE_NAME, CachePut CACHE_NAME req clone])"

text \<open>Lines 40-55.\<close>

definition image_strategy :: "request \<Rightarrow> response option \<Rightarrow> cache_storage \<Rightarrow> handled" where
  "image_strategy req net s =
     (case caches_match req s of
        Some cached \<Rightarrow>
          \<lparr>store = s, outcome = Respond cached, effects = [CachesMatch req], route = ImageCache\<rparr>
      | None \<Rightarrow>
          (case net of
             None \<Rightarrow>
               \<lparr>store = s, outcome = NetworkError,
                effects = [CachesMatch req, NetFetch req], route = ImageCache\<rparr>
           | Some response \<Rightarrow>
               if ok response
               then \<lparr>store = fst (image_put req response s), outcome = Respond response,
                     effects = [CachesMatch req, NetFetch req] @ snd (image_put req response s),
                     route = ImageCache\<rparr>
               else \<lparr>store = s, outcome = Respond response,
                     effects = [CachesMatch req, NetFetch req], route = ImageCache\<rparr>))"

text \<open>Lines 60-71.\<close>

definition allowlist_strategy :: "request \<Rightarrow> response option \<Rightarrow> cache_storage \<Rightarrow> handled" where
  "allowlist_strategy req net s =
     (case caches_match req s of
        Some cached \<Rightarrow>
          \<lparr>store = s, outcome = Respond cached, effects = [CachesMatch req],
           route = AllowlistedThirdParty\<rparr>
      | None \<Rightarrow>
          (case net of
             None \<Rightarrow>
               \<lparr>store = s, outcome = NetworkError,
                effects = [CachesMatch req, NetFetch req], route = AllowlistedThirdParty\<rparr>
           | Some response \<Rightarrow>
               if ok response
               then \<lparr>store = fst (version_put req response s), outcome = Respond response,
                     effects = [CachesMatch req, NetFetch req] @ snd (version_put req response s),
                     route = AllowlistedThirdParty\<rparr>
               else \<lparr>store = s, outcome = Respond response,
                     effects = [CachesMatch req, NetFetch req],
                     route = AllowlistedThirdParty\<rparr>))"

text \<open>
  Lines 76-86. When the fetch rejects, the handler answers with
  \<open>caches.match(event.request)\<close>, which resolves with no response on a miss.
\<close>

definition same_origin_strategy :: "request \<Rightarrow> response option \<Rightarrow> cache_storage \<Rightarrow> handled" where
  "same_origin_strategy req net s =
     (case net of
        Some response \<Rightarrow>
          if ok response
          then \<lparr>store = fst (version_put req response s), outcome = Respond response,
                effects = [NetFetch req] @ snd (version_put req response s),
                route = SameOriginNetworkFirst\<rparr>
          else \<lparr>store = s, outcome = Respond response, effects = [NetFetch req],
                route = SameOriginNetworkFirst\<rparr>
      | None \<Rightarrow>
          (case caches_match req s of
             Some cached \<Rightarrow>
               \<lparr>store = s, outcome = Respond cached,
                effects = [NetFetch req, CachesMatch req], route = SameOriginNetworkFirst\<rparr>
           | None \<Rightarrow>
               \<lparr>store = s, outcome = NetworkError,
                effects = [NetFetch req, CachesMatch req], route = SameOriginNetworkFirst\<rparr>))"

text \<open>
  The listener; \<open>loc\<close> is \<open>self.location.origin\<close>.
\<close>

definition fetch_listener ::
  "string \<Rightarrow> request \<Rightarrow> response option \<Rightarrow> cache_storage \<Rightarrow> handled" where
  "fetch_listener loc req net s =
     (let hostname = url_hostname (url req) in
      if method req \<noteq> ''GET'' then declined s
      else if includes_str hostname ''firebaseauth'' \<or> includes_str hostname ''firestore''
              \<or> includes_str hostname ''googleapis.com/identitytoolkit''
              \<or> includes_str hostname ''securetoken'' then declined s
      else if includes_str hostname ''api.unsplash.com'' then declined s
      else if includes_str hostname ''images.unsplash.com'' then image_strategy req net s
      else if list_ex (\<lambda>origin. startsWith (url req) origin) RUNTIME_CACHE_ORIGINS
           then allowlist_strategy req net s
      else if url_origin (url req) = loc then same_origin_strategy req net s
      else declined s)"

subsection \<open>Requests served one after the other\<close>



text \<open>The entries written to a cache, in the order of the calls.\<close>

fun written :: "effect list \<Rightarrow> (string \<times> request \<times> response) list" where
  "written [] = []"
| "written (CachePut name req resp # es) = (name, req, resp) # written es"
| "written (e # es) = written es"

subsection \<open>The install listener (sw.js lines 17-23)\<close>

text \<open>
  \<open>cache.addAll\<close> fetches every request of the list and rejects, storing nothing,
  when a fetch rejects or a response is not ok; otherwise it stores every pair.
  A path of \<open>PRECACHE_URLS\<close> is resolved against the worker's origin.
\<close>

datatype settled = Fulfilled | Rejected






subsection \<open>The activate listener (sw.js lines 25-31)\<close>

text \<open>
  \<open>rejects k\<close> says that \<open>caches.delete(k)\<close> rejects, leaving the generation in
  place. \<open>map\<close> calls \<open>caches.delete\<close> on every stale name before
  \<open>Promise.all\<close> looks at any result; \<open>Promise.all\<close> rejects when one of its
  promises rejects, and then the \<open>then\<close> callback with \<open>clients.claim\<close> does not run.
\<close>

record activated =
  activate_store :: cache_storage
  activate_promise :: settled
  clientsClaim :: bool
  delete_calls :: "string list"

fun delete_each :: "(string \<Rightarrow> bool) \<Rightarrow> string list \<Rightarrow> cache_storage \<Rightarrow> cache_storage" where
  "delete_each rejects [] s = s"
| "delete_each rejects (k # ks) s =
     delete_each rejects ks (if rejects k then s else caches_delete k s)"

definition activate :: "(string \<Rightarrow> bool) \<Rightarrow> cache_storage \<Rightarrow> activated" where
  "activate rejects s =
     (let keys = caches_keys s;
          stale = filter (\<lambda>k. k \<noteq> CACHE_NAME \<and> k \<noteq> IMAGE_CACHE) keys;
          s' = delete_each rejects stale s
      in if list_ex rejects stale
         then \<lparr>activate_store = s', activate_promise = Rejected, clientsClaim = False,
               delete_calls = stale\<rparr>
         else \<lparr>activate_store = s', activate_promise = Fulfilled, clientsClaim = True,
               delete_calls = stale\<rparr>)"

subsection \<open>What the storage holds\<close>




subsection \<open>Example values\<close>


abbreviation app_request :: request where
  "app_request \<equiv> \<lparr>method = ''GET'', url = ''https://matt-10013.github.io/folio/app.js''\<rparr>"

abbreviation photo_request :: request where
  "photo_request \<equiv> \<lparr>method = ''GET'', url = ''https://images.unsplash.com/photo-1''\<rparr>"


abbreviation snapshot_a :: response where
  "snapshot_a \<equiv> \<lparr>status = 200, body = ''a''\<rparr>"

abbreviation snapshot_b :: response where
  "snapshot_b \<equiv> \<lparr>status = 200, body = ''b''\<rparr>"


section \<open>Properties\<close>

subsection \<open>Cache storage\<close>

lemma map_of_Some_key: "map_of xs k = Some v \<Longrightarrow> k \<in> fst ` set xs"
  by (metis map_of_eq_None_iff option.distinct(1))








lemma caches_match_open: "caches_match req (caches_open name s) = caches_match req s"
proof -
  have "caches_match req (s @ [(name, [])]) = caches_match req s"
    by (induction s) (simp_all add: cache_match_def split: option.split)
  then show ?thesis by (simp add: caches_open_def)
qed


lemma generation_Cons:
  "generation name (g # s) = (if fst g = name then snd g else generation name s)"
  by (cases g) (simp add: generation_def)


lemma generation_on_cache_other:
  "n \<noteq> name \<Longrightarrow> generation n (on_cache name f s) = generation n s"
  by (induction s) (simp_all add: generation_Cons)

lemma caches_keys_on_cache: "caches_keys (on_cache name f s) = caches_keys s"
  by (induction s) (simp_all add: caches_keys_def)





lemma route_image_strategy: "route (image_strategy req net s) = ImageCache"
  by (simp add: image_strategy_def split: option.split)







subsection \<open>The strategies\<close>











































subsection \<open>Rollover and provisioning\<close>

lemma caches_delete_filter: "caches_delete k s = filter (\<lambda>g. fst g \<noteq> k) s"
  by (simp add: caches_delete_def)

lemma delete_each_all:
  "\<not> list_ex rejects ks \<Longrightarrow> delete_each rejects ks s = filter (\<lambda>g. fst g \<notin> set ks) s"
proof (induction ks arbitrary: s)
  case Nil
  show ?case by simp
next
  case (Cons k ks)
  then have "delete_each rejects (k # ks) s = filter (\<lambda>g. fst g \<notin> set ks) (caches_delete k s)"
    by simp
  also have "\<dots> = filter (\<lambda>g. fst g \<notin> set (k # ks)) s"
    by (simp add: caches_delete_def conj_commute)
  finally show ?case .
qed

lemma generation_filter:
  "(\<And>g. fst g = n \<Longrightarrow> P g) \<Longrightarrow> generation n (filter P s) = generation n s"
  by (induction s) (auto simp add: generation_Cons generation_def)

lemma generation_delete_each:
  "n \<notin> set ks \<Longrightarrow> generation n (delete_each rejects ks s) = generation n s"
proof (induction ks arbitrary: s)
  case Nil
  show ?case by simp
next
  case (Cons k ks)
  then have "n \<noteq> k" "n \<notin> set ks" by simp_all
  then show ?case
    using Cons.IH[of "caches_delete k s"] Cons.IH[of s]
    by (simp add: caches_delete_def generation_filter)
qed

lemma caches_keys_delete_each:
  "set (caches_keys (delete_each rejects ks s)) \<subseteq> set (caches_keys s)"
proof (induction ks arbitrary: s)
  case Nil
  show ?case by simp
next
  case (Cons k ks)
  have "set (caches_keys (caches_delete k s)) \<subseteq> set (caches_keys s)"
    by (auto simp add: caches_keys_def caches_delete_def)
  then show ?case
    using Cons.IH[of "caches_delete k s"] Cons.IH[of s] by auto
qed

lemma delete_each_removes:
  "k \<in> set ks \<Longrightarrow> \<not> rejects k \<Longrightarrow> k \<notin> set (caches_keys (delete_each rejects ks s))"
proof (induction ks arbitrary: s)
  case Nil
  then show ?case by simp
next
  case (Cons a ks)
  show ?case
  proof (cases "k = a")
    case True
    have "k \<notin> set (caches_keys (caches_delete k s))"
      by (auto simp add: caches_keys_def caches_delete_def)
    then have "k \<notin> set (caches_keys (delete_each rejects ks (caches_delete k s)))"
      using caches_keys_delete_each[of rejects ks "caches_delete k s"] by blast
    with True Cons.prems(2) show ?thesis by simp
  next
    case False
    with Cons.prems have "k \<in> set ks" by simp
    then show ?thesis
      using Cons.IH[of "caches_delete a s"] Cons.IH[of s] Cons.prems(2) by simp
  qed
qed










subsection \<open>The image generation under a run of requests\<close>

















text \<open>
  A hostname has no slash, so the marker \<open>googleapis.com/identitytoolkit\<close> of line 36
  matches no request.
\<close>

lemma includes_str_set: "includes_str h p \<Longrightarrow> set p \<subseteq> set h"
proof (induction h)
  case Nil
  then show ?case by simp
next
  case (Cons a h)
  have "startsWith s p \<Longrightarrow> set p \<subseteq> set s" for s
    by (induction s p rule: startsWith.induct) auto
  with Cons show ?case by fastforce
qed

lemma url_hostname_no_slash: "CHR ''/'' \<notin> set (url_hostname u)"
proof
  assume "CHR ''/'' \<in> set (url_hostname u)"
  then have "CHR ''/'' \<in> set (url_host u)"
    unfolding url_hostname_def by (rule set_takeWhileD[THEN conjunct1])
  then have "CHR ''/'' \<in> set (url_authority u)"
    unfolding url_host_def using set_takeWhileD by fastforce
  then show False
    unfolding url_authority_def using set_takeWhileD by fastforce
qed

lemma identitytoolkit_marker_never_matches:
  "\<not> includes_str (url_hostname u) ''googleapis.com/identitytoolkit''"
  using includes_str_set[of "url_hostname u" "''googleapis.com/identitytoolkit''"]
    url_hostname_no_slash[of u]
  by auto

subsection \<open>Bypassed requests\<close>

text \<open>
  C6. A request whose method is not GET, or whose hostname contains one of the bypass
  markers of lines 36-37, is declined: the listener returns without \<open>respondWith\<close>, so
  the request goes to the network unmodified; it makes no cache lookup, no fetch of its
  own and no write (the list of its calls is empty), the storage is unchanged, and the
  request is routed to none of the three caching strategies.
\<close>

theorem bypass_no_cache_interaction:
  assumes "method req \<noteq> ''GET''
     \<or> includes_str (url_hostname (url req)) ''firebaseauth''
     \<or> includes_str (url_hostname (url req)) ''firestore''
     \<or> includes_str (url_hostname (url req)) ''googleapis.com/identitytoolkit''
     \<or> includes_str (url_hostname (url req)) ''securetoken''
     \<or> includes_str (url_hostname (url req)) ''api.unsplash.com''"
  shows "fetch_listener loc req net s =
           \<lparr>store = s, outcome = PassThrough, effects = [], route = Bypass\<rparr>"
  using assms by (auto simp add: fetch_listener_def declined_def Let_def)

theorem bypass_no_cache_interaction_witness:
  "method \<lparr>method = ''POST'', url = ''https://matt-10013.github.io/folio/''\<rparr> \<noteq> ''GET''
   \<and> fetch_listener ''https://matt-10013.github.io''
         \<lparr>method = ''POST'', url = ''https://matt-10013.github.io/folio/''\<rparr>
         (Some \<lparr>status = 200, body = ''done''\<rparr>) [(''folio-v1.0'', [])]
       = \<lparr>store = [(''folio-v1.0'', [])], outcome = PassThrough, effects = [], route = Bypass\<rparr>
   \<and> includes_str (url_hostname ''https://firestore.googleapis.com/v1/projects/folio'') ''firestore''
   \<and> fetch_listener ''https://matt-10013.github.io''
         \<lparr>method = ''GET'', url = ''https://firestore.googleapis.com/v1/projects/folio''\<rparr>
         None [(''folio-v1.0'', [])]
       = \<lparr>store = [(''folio-v1.0'', [])], outcome = PassThrough, effects = [], route = Bypass\<rparr>"
  using bypass_no_cache_interaction
          [of "\<lparr>method = ''POST'', url = ''https://matt-10013.github.io/folio/''\<rparr>"
              "''https://matt-10013.github.io''" "Some \<lparr>status = 200, body = ''done''\<rparr>"
              "[(''folio-v1.0'', [])]"]
        bypass_no_cache_interaction
          [of "\<lparr>method = ''GET'', url = ''https://firestore.googleapis.com/v1/projects/folio''\<rparr>"
              "''https://matt-10013.github.io''" None "[(''folio-v1.0'', [])]"]
  by (simp add: url_hostname_def url_host_def url_authority_def url_scheme_def)

subsection \<open>Classification by substring and prefix\<close>

text \<open>
  C10. The image branch tests that the hostname contains \<open>images.unsplash.com\<close>, and
  the allowlist branch tests that the URL starts with an allowlisted string. So a GET
  request to the host \<open>images.unsplash.com.attacker.example\<close> is routed to the bounded
  image cache, and a GET request for
  \<open>https://fonts.googleapis.com.attacker.example/x\<close>, whose host is not
  \<open>fonts.googleapis.com\<close>, is routed to the allowlisted cache-first strategy and its ok
  response is written to the current-version generation.
\<close>

theorem classification_by_substring_and_prefix:
  "(\<exists>req. url req = ''https://images.unsplash.com.attacker.example/p.jpg''
       \<and> url_hostname (url req) = ''images.unsplash.com.attacker.example''
       \<and> url_hostname (url req) \<noteq> ''images.unsplash.com''
       \<and> includes_str (url_hostname (url req)) ''images.unsplash.com''
       \<and> (\<forall>loc net s. route (fetch_listener loc req net s) = ImageCache))
   \<and> (\<exists>req resp. url req = ''https://fonts.googleapis.com.attacker.example/x''
       \<and> url_hostname (url req) = ''fonts.googleapis.com.attacker.example''
       \<and> url_hostname (url req) \<noteq> ''fonts.googleapis.com''
       \<and> startsWith (url req) ''https://fonts.googleapis.com''
       \<and> ok resp
       \<and> (\<forall>loc. route (fetch_listener loc req (Some resp) []) = AllowlistedThirdParty
             \<and> outcome (fetch_listener loc req (Some resp) []) = Respond resp
             \<and> written (effects (fetch_listener loc req (Some resp) []))
                 = [(CACHE_NAME, req, resp)]
             \<and> store (fetch_listener loc req (Some resp) []) = [(CACHE_NAME, [(req, resp)])]))"
proof (intro conjI)
  let ?img = "\<lparr>method = ''GET'', url = ''https://images.unsplash.com.attacker.example/p.jpg''\<rparr>"
  have "url ?img = ''https://images.unsplash.com.attacker.example/p.jpg''
       \<and> url_hostname (url ?img) = ''images.unsplash.com.attacker.example''
       \<and> url_hostname (url ?img) \<noteq> ''images.unsplash.com''
       \<and> includes_str (url_hostname (url ?img)) ''images.unsplash.com''
       \<and> (\<forall>loc net s. route (fetch_listener loc ?img net s) = ImageCache)"
    by (simp add: url_hostname_def url_host_def url_authority_def url_scheme_def
        fetch_listener_def route_image_strategy)
  then show "\<exists>req. url req = ''https://images.unsplash.com.attacker.example/p.jpg''
       \<and> url_hostname (url req) = ''images.unsplash.com.attacker.example''
       \<and> url_hostname (url req) \<noteq> ''images.unsplash.com''
       \<and> includes_str (url_hostname (url req)) ''images.unsplash.com''
       \<and> (\<forall>loc net s. route (fetch_listener loc req net s) = ImageCache)"
    by (rule exI)
next
  let ?font = "\<lparr>method = ''GET'', url = ''https://fonts.googleapis.com.attacker.example/x''\<rparr>"
  let ?resp = "\<lparr>status = 200, body = ''x''\<rparr>"
  have "url ?font = ''https://fonts.googleapis.com.attacker.example/x''
       \<and> url_hostname (url ?font) = ''fonts.googleapis.com.attacker.example''
       \<and> url_hostname (url ?font) \<noteq> ''fonts.googleapis.com''
       \<and> startsWith (url ?font) ''https://fonts.googleapis.com''
       \<and> ok ?resp
       \<and> (\<forall>loc. route (fetch_listener loc ?font (Some ?resp) []) = AllowlistedThirdParty
             \<and> outcome (fetch_listener loc ?font (Some ?resp) []) = Respond ?resp
             \<and> written (effects (fetch_listener loc ?font (Some ?resp) []))
                 = [(CACHE_NAME, ?font, ?resp)]
             \<and> store (fetch_listener loc ?font (Some ?resp) []) = [(CACHE_NAME, [(?font, ?resp)])])"
    by (simp add: url_hostname_def url_host_def url_authority_def url_scheme_def
        fetch_listener_def allowlist_strategy_def version_put_def caches_open_def
        caches_keys_def cache_put_def ok_def RUNTIME_CACHE_ORIGINS_def)
  then show "\<exists>req resp. url req = ''https://fonts.googleapis.com.attacker.example/x''
       \<and> url_hostname (url req) = ''fonts.googleapis.com.attacker.example''
       \<and> url_hostname (url req) \<noteq> ''fonts.googleapis.com''
       \<and> startsWith (url req) ''https://fonts.googleapis.com''
       \<and> ok resp
       \<and> (\<forall>loc. route (fetch_listener loc req (Some resp) []) = AllowlistedThirdParty
             \<and> outcome (fetch_listener loc req (Some resp) []) = Respond resp
             \<and> written (effects (fetch_listener loc req (Some resp) []))
                 = [(CACHE_NAME, req, resp)]
             \<and> store (fetch_listener loc req (Some resp) []) = [(CACHE_NAME, [(req, resp)])])"
    by blast
qed

subsection \<open>Responses that are not ok\<close>




subsection \<open>Where the cache-first strategies look\<close>




subsection \<open>The fallback of the network-first strategy\<close>





subsection \<open>A repeated image request\<close>





subsection \<open>Rollover\<close>

text \<open>
  C5. When the rollover completes (the promise given to \<open>waitUntil\<close> is fulfilled),
  no generation with a name other than the current-version name and the image name is
  left in the storage, and the entries of the current-version generation and of the image
  generation are what they were; the storage is the old one restricted to the two live
  names.
\<close>

theorem rollover_leaves_only_live_generations:
  assumes "activate_promise (activate rejects s) = Fulfilled"
  shows "(\<forall>name. name \<noteq> CACHE_NAME \<and> name \<noteq> IMAGE_CACHE \<longrightarrow>
            name \<notin> set (caches_keys (activate_store (activate rejects s))))
       \<and> generation CACHE_NAME (activate_store (activate rejects s)) = generation CACHE_NAME s
       \<and> generation IMAGE_CACHE (activate_store (activate rejects s)) = generation IMAGE_CACHE s
       \<and> activate_store (activate rejects s)
           = filter (\<lambda>g. fst g = CACHE_NAME \<or> fst g = IMAGE_CACHE) s"
proof -
  let ?stale = "filter (\<lambda>k. k \<noteq> CACHE_NAME \<and> k \<noteq> IMAGE_CACHE) (caches_keys s)"
  have st: "activate_store (activate rejects s) = delete_each rejects ?stale s"
    by (simp add: activate_def Let_def)
  from assms have none: "\<not> list_ex rejects ?stale"
    by (simp add: activate_def Let_def split: if_splits)
  have "delete_each rejects ?stale s = filter (\<lambda>g. fst g \<notin> set ?stale) s"
    using none by (rule delete_each_all)
  also have "\<dots> = filter (\<lambda>g. fst g = CACHE_NAME \<or> fst g = IMAGE_CACHE) s"
    by (rule filter_cong) (auto simp add: caches_keys_def)
  finally have eq: "activate_store (activate rejects s)
      = filter (\<lambda>g. fst g = CACHE_NAME \<or> fst g = IMAGE_CACHE) s"
    by (simp add: st)
  have absent: "\<forall>name. name \<noteq> CACHE_NAME \<and> name \<noteq> IMAGE_CACHE \<longrightarrow>
      name \<notin> set (caches_keys (activate_store (activate rejects s)))"
    by (auto simp add: eq caches_keys_def)
  have g1: "generation CACHE_NAME (activate_store (activate rejects s)) = generation CACHE_NAME s"
    by (simp add: st generation_delete_each)
  have g2: "generation IMAGE_CACHE (activate_store (activate rejects s)) = generation IMAGE_CACHE s"
    by (simp add: st generation_delete_each)
  from absent g1 g2 eq show ?thesis by simp
qed

theorem rollover_leaves_only_live_generations_witness:
  "activate_promise (activate (\<lambda>k. False)
       [(''folio-v0.9'', [(app_request, snapshot_a)]),
        (''folio-v1.0'', [(app_request, snapshot_b)]),
        (''folio-images-v1'', [(photo_request, snapshot_a)])]) = Fulfilled
   \<and> activate_store (activate (\<lambda>k. False)
       [(''folio-v0.9'', [(app_request, snapshot_a)]),
        (''folio-v1.0'', [(app_request, snapshot_b)]),
        (''folio-images-v1'', [(photo_request, snapshot_a)])])
     = [(''folio-v1.0'', [(app_request, snapshot_b)]),
        (''folio-images-v1'', [(photo_request, snapshot_a)])]"
proof -
  have fulfilled: "activate_promise (activate (\<lambda>k. False)
       [(''folio-v0.9'', [(app_request, snapshot_a)]),
        (''folio-v1.0'', [(app_request, snapshot_b)]),
        (''folio-images-v1'', [(photo_request, snapshot_a)])]) = Fulfilled"
    by (simp add: activate_def Let_def list_ex_iff)
  from fulfilled rollover_leaves_only_live_generations[OF fulfilled]
  show ?thesis by (simp add: CACHE_NAME_def IMAGE_CACHE_def)
qed

text \<open>
  C9, as the code has it. \<open>caches.delete\<close> is called on every stale name, whatever
  the other calls do; a stale generation whose own deletion does not reject is gone
  afterwards, also when another deletion rejects; and the two live generations keep their
  entries. But a rejection is passed on: when the deletion of some stale generation
  rejects, \<open>Promise.all\<close> rejects, so the rollover as a whole is rejected and
  \<open>clients.claim\<close> is not called.
\<close>

theorem rollover_deletions_attempted_independently:
  "delete_calls (activate rejects s)
     = filter (\<lambda>k. k \<noteq> CACHE_NAME \<and> k \<noteq> IMAGE_CACHE) (caches_keys s)
   \<and> (\<forall>k. k \<in> set (caches_keys s) \<and> k \<noteq> CACHE_NAME \<and> k \<noteq> IMAGE_CACHE \<and> \<not> rejects k \<longrightarrow>
         k \<notin> set (caches_keys (activate_store (activate rejects s))))
   \<and> (\<forall>k. k \<in> set (caches_keys s) \<and> k \<noteq> CACHE_NAME \<and> k \<noteq> IMAGE_CACHE \<and> rejects k \<longrightarrow>
         activate_promise (activate rejects s) = Rejected \<and> \<not> clientsClaim (activate rejects s))
   \<and> generation CACHE_NAME (activate_store (activate rejects s)) = generation CACHE_NAME s
   \<and> generation IMAGE_CACHE (activate_store (activate rejects s)) = generation IMAGE_CACHE s"
proof -
  let ?stale = "filter (\<lambda>k. k \<noteq> CACHE_NAME \<and> k \<noteq> IMAGE_CACHE) (caches_keys s)"
  have st: "activate_store (activate rejects s) = delete_each rejects ?stale s"
    by (simp add: activate_def Let_def)
  have calls: "delete_calls (activate rejects s) = ?stale"
    by (simp add: activate_def Let_def)
  have gone: "\<forall>k. k \<in> set (caches_keys s) \<and> k \<noteq> CACHE_NAME \<and> k \<noteq> IMAGE_CACHE \<and> \<not> rejects k \<longrightarrow>
         k \<notin> set (caches_keys (activate_store (activate rejects s)))"
    by (simp add: st delete_each_removes)
  have fails: "\<forall>k. k \<in> set (caches_keys s) \<and> k \<noteq> CACHE_NAME \<and> k \<noteq> IMAGE_CACHE \<and> rejects k \<longrightarrow>
         activate_promise (activate rejects s) = Rejected \<and> \<not> clientsClaim (activate rejects s)"
    by (auto simp add: activate_def Let_def list_ex_iff)
  have g1: "generation CACHE_NAME (activate_store (activate rejects s)) = generation CACHE_NAME s"
    by (simp add: st generation_delete_each)
  have g2: "generation IMAGE_CACHE (activate_store (activate rejects s)) = generation IMAGE_CACHE s"
    by (simp add: st generation_delete_each)
  from calls gone fails g1 g2 show ?thesis by simp
qed


theorem rollover_deletions_attempted_independently_witness:
  "delete_calls (activate (\<lambda>k. k = ''folio-v0.8'')
       [(''folio-v0.8'', []), (''folio-v0.9'', []), (''folio-v1.0'', [])])
     = [''folio-v0.8'', ''folio-v0.9'']
   \<and> ''folio-v0.9'' \<notin> set (caches_keys (activate_store (activate (\<lambda>k. k = ''folio-v0.8'')
       [(''folio-v0.8'', []), (''folio-v0.9'', []), (''folio-v1.0'', [])])))
   \<and> activate_promise (activate (\<lambda>k. k = ''folio-v0.8'')
       [(''folio-v0.8'', []), (''folio-v0.9'', []), (''folio-v1.0'', [])]) = Rejected
   \<and> \<not> clientsClaim (activate (\<lambda>k. k = ''folio-v0.8'')
       [(''folio-v0.8'', []), (''folio-v0.9'', []), (''folio-v1.0'', [])])"
  using rollover_deletions_attempted_independently
          [of "\<lambda>k. k = ''folio-v0.8''" "[(''folio-v0.8'', []), (''folio-v0.9'', []), (''folio-v1.0'', [])]"]
  by (simp add: caches_keys_def CACHE_NAME_def IMAGE_CACHE_def)

text \<open>
  C9 as stated fails: with one stale generation whose deletion rejects, the deletion
  is attempted, and its failure is the failure of the whole rollover, which never claims
  the clients.
\<close>

theorem rollover_failure_not_propagated_counterexample:
  "delete_calls (activate ((=) ''old-cache'') [(''old-cache'', []), (''folio-v1.0'', [])])
     = [''old-cache'']
   \<and> activate_promise (activate ((=) ''old-cache'') [(''old-cache'', []), (''folio-v1.0'', [])])
     = Rejected
   \<and> clientsClaim (activate ((=) ''old-cache'') [(''old-cache'', []), (''folio-v1.0'', [])])
     = False"
  by (simp add: activate_def Let_def caches_keys_def CACHE_NAME_def IMAGE_CACHE_def)

subsection \<open>Provisioning\<close>




subsection \<open>The bounded image cache\<close>




end
